theory Spec2Isabelle
  imports Complex_Main "HOL-Library.Extended_Nat" "HOL-Library.AList"
begin

section \<open>Push export pipeline (class PushGatewayExporter)\<close>

text \<open>
  JavaScript runs the exporter on one thread: its methods and the handlers of its promises
  run one after the other. The model is a state record and one function per method, plus
  \<open>settle\<close> for the moment a promise returned by \<open>fetch\<close> settles and the handlers
  chained to it run. A promise returned by \<open>fetch\<close> is known by its handle, the position
  of its entry in \<open>fetches\<close>.
\<close>

datatype fetch_outcome =
    Response bool string   \<comment> \<open>fulfilled with a response: \<open>response.ok\<close>, \<open>response.statusText\<close>\<close>
  | NetworkError string    \<comment> \<open>rejected: the transport failed\<close>

datatype fetch_state = FetchPending | FetchSettled fetch_outcome

datatype export_result = SUCCESS | FAILED string

datatype promise_state = Pending | Fulfilled | Rejected

record 'm exporter =
  concurrencyLimit :: enat
  sendingPromises :: "nat list"
  isCalled :: bool
  deferred :: "nat list option"
  window :: bool
  unloadListener :: bool
  fetches :: "(nat \<times> 'm \<times> fetch_state) list"
  results :: "(nat \<times> export_result) list"
  debugLog :: "string list"
  shutdownReturns :: "nat list option list"

text \<open>
  \<open>isCalled\<close> and \<open>deferred\<close> are the two fields of \<open>_shutdownOnce\<close>; \<open>deferred\<close> is
  \<open>None\<close> until the deferred promise has been chained to the promise of the bound callback.
  An entry \<open>(cb, m, st)\<close> of \<open>fetches\<close> is one POST whose body is the serialisation of the
  snapshot \<open>m\<close>, started by the export call that was given the callback \<open>cb\<close>.
  \<open>results\<close> lists the invocations of result callbacks, \<open>debugLog\<close> the lines given to
  \<open>amLogger.debug\<close>, \<open>shutdownReturns\<close> what each call of \<open>shutdown\<close> returned.
\<close>

definition PushGatewayExporter :: "nat option \<Rightarrow> bool \<Rightarrow> 'm exporter" where
  "PushGatewayExporter limit has_window =
     \<lparr> concurrencyLimit = (case limit of None \<Rightarrow> \<infinity> | Some n \<Rightarrow> enat n),
       sendingPromises = [],
       isCalled = False,
       deferred = None,
       window = has_window,
       unloadListener = has_window,
       fetches = [],
       results = [],
       debugLog = [],
       shutdownReturns = [] \<rparr>"

definition fetch_state_of :: "'m exporter \<Rightarrow> nat \<Rightarrow> fetch_state" where
  "fetch_state_of x h =
     (if h < length (fetches x) then snd (snd (fetches x ! h)) else FetchPending)"

primrec first_index :: "'a list \<Rightarrow> 'a \<Rightarrow> nat \<Rightarrow> int" where
  "first_index [] p i = - 1"
| "first_index (q # qs) p i = (if q = p then int i else first_index qs p (Suc i))"

definition indexOf :: "'a list \<Rightarrow> 'a \<Rightarrow> int" where
  "indexOf xs p = first_index xs p 0"

text \<open>\<open>xs.splice(i, 1)\<close>: a negative start counts from the end, and is clamped.\<close>

definition splice1 :: "int \<Rightarrow> 'a list \<Rightarrow> 'a list" where
  "splice1 i xs =
     (let n = int (length xs);
          start = (if i < 0 then max (n + i) 0 else min i n)
      in take (nat start) xs @ drop (Suc (nat start)) xs)"

text \<open>
  \<open>callback cb r\<close> is the invocation \<open>resultCallback(r)\<close> of the callback \<open>cb\<close>.
  \<open>export_inner\<close> is the private method \<open>_export\<close>: it starts the POST, which gives a
  fresh pending promise, and pushes that promise on \<open>_sendingPromises\<close>.
\<close>

definition callback :: "nat \<Rightarrow> export_result \<Rightarrow> 'm exporter \<Rightarrow> 'm exporter" where
  "callback cb r x = x\<lparr>results := results x @ [(cb, r)]\<rparr>"

definition export_inner :: "'m \<Rightarrow> nat \<Rightarrow> 'm exporter \<Rightarrow> 'm exporter" where
  "export_inner serializedMetrics cb x =
     (let promise = length (fetches x)
      in x\<lparr>fetches := fetches x @ [(cb, serializedMetrics, FetchPending)],
            sendingPromises := sendingPromises x @ [promise]\<rparr>)"

definition export :: "'m \<Rightarrow> nat \<Rightarrow> 'm exporter \<Rightarrow> 'm exporter" where
  "export metrics resultCallback x =
     (if isCalled x then
        callback resultCallback (FAILED ''Exporter has been shutdown'') x
      else if concurrencyLimit x \<le> enat (length (sendingPromises x)) then
        callback resultCallback (FAILED ''Concurrent export limit reached'') x
      else export_inner metrics resultCallback x)"

text \<open>
  The handlers chained to a promise of \<open>fetch\<close>, run when it settles: the check of
  \<open>response.ok\<close>, the \<open>finally\<close> that takes the promise out of \<open>_sendingPromises\<close>, then
  the \<open>then\<close>/\<open>catch\<close> of \<open>export\<close> that invoke the result callback. A promise settles
  once: settling a handle that is unknown or already settled changes nothing.
\<close>

definition settle :: "nat \<Rightarrow> fetch_outcome \<Rightarrow> 'm exporter \<Rightarrow> 'm exporter" where
  "settle promise outcome x =
     (if promise < length (fetches x) \<and> fetch_state_of x promise = FetchPending then
        (case fetches x ! promise of (cb, m, _) \<Rightarrow>
           let x1 = x\<lparr>fetches := (fetches x)[promise := (cb, m, FetchSettled outcome)]\<rparr>;
               index = indexOf (sendingPromises x1) promise;
               x2 = x1\<lparr>sendingPromises := splice1 index (sendingPromises x1)\<rparr>
           in (case outcome of
                 Response ok statusText \<Rightarrow>
                   if ok then callback cb SUCCESS x2
                   else callback cb (FAILED (''Could not push metrics: '' @ statusText)) x2
               | NetworkError msg \<Rightarrow> callback cb (FAILED msg) x2))
      else x)"

text \<open>
  \<open>Promise.all\<close> over promises of \<open>fetch\<close>: rejected as soon as one of them is rejected,
  fulfilled once all of them are fulfilled, pending otherwise.
\<close>

definition is_rejected :: "fetch_state \<Rightarrow> bool" where
  "is_rejected st = (case st of FetchSettled (NetworkError _) \<Rightarrow> True | _ \<Rightarrow> False)"

definition is_fulfilled :: "fetch_state \<Rightarrow> bool" where
  "is_fulfilled st = (case st of FetchSettled (Response _ _) \<Rightarrow> True | _ \<Rightarrow> False)"

definition is_settled :: "fetch_state \<Rightarrow> bool" where
  "is_settled st = (case st of FetchSettled _ \<Rightarrow> True | FetchPending \<Rightarrow> False)"

definition promise_all :: "fetch_state list \<Rightarrow> promise_state" where
  "promise_all ps =
     (if list_ex is_rejected ps then Rejected
      else if list_all is_fulfilled ps then Fulfilled
      else Pending)"

text \<open>
  \<open>forceFlush\<close> returns \<open>Promise.all(this._sendingPromises).then(() => {})\<close>; the promise
  is represented by the handles it was built from, and \<open>flush_state\<close> reads its state.
\<close>

definition forceFlush :: "'m exporter \<Rightarrow> nat list" where
  "forceFlush x = sendingPromises x"

definition flush_state :: "'m exporter \<Rightarrow> nat list \<Rightarrow> promise_state" where
  "flush_state x flush = promise_all (map (fetch_state_of x) flush)"

text \<open>\<open>shutdown_inner\<close> is the private method \<open>_shutdown\<close>.\<close>

definition shutdown_inner :: "'m exporter \<Rightarrow> nat list \<times> 'm exporter" where
  "shutdown_inner x =
     (let x1 = x\<lparr>debugLog := debugLog x @ [''shutdown started'']\<rparr>
      in (forceFlush x1, x1))"

text \<open>
  Modelled from the spec: \<open>BindOnceFuture\<close> is imported from \<open>@opentelemetry/core\<close> and its
  code is not part of the sources. The spec describes the one-shot shutdown as a guarded
  state transition, a flag and a memoised result: the flag is set the first time shutdown is
  requested, that request runs the bound callback, and every request returns the one
  memoised promise.
\<close>

definition bindOnceFuture_call :: "'m exporter \<Rightarrow> nat list option \<times> 'm exporter" where
  "bindOnceFuture_call x =
     (if \<not> isCalled x then
        (case shutdown_inner (x\<lparr>isCalled := True\<rparr>) of
           (p, x1) \<Rightarrow> (Some p, x1\<lparr>deferred := Some p\<rparr>))
      else (deferred x, x))"

definition shutdown :: "'m exporter \<Rightarrow> nat list option \<times> 'm exporter" where
  "shutdown x =
     bindOnceFuture_call (if window x then x\<lparr>unloadListener := False\<rparr> else x)"

text \<open>
  What can happen to an exporter, one event at a time: a call of \<open>export\<close> with a snapshot and
  a callback, a promise of \<open>fetch\<close> settling, a call of \<open>forceFlush\<close>, a call of
  \<open>shutdown\<close> (by a caller or by the unload listener). \<open>run\<close> plays a sequence of events.
\<close>

datatype 'm event =
    Export 'm nat
  | Settle nat fetch_outcome
  | ForceFlush
  | Shutdown

fun step :: "'m event \<Rightarrow> 'm exporter \<Rightarrow> 'm exporter" where
  "step (Export m cb) x = export m cb x"
| "step (Settle h outcome) x = settle h outcome x"
| "step ForceFlush x = x"
| "step Shutdown x =
     (case shutdown x of (p, x1) \<Rightarrow> x1\<lparr>shutdownReturns := shutdownReturns x1 @ [p]\<rparr>)"

fun run :: "'m event list \<Rightarrow> 'm exporter \<Rightarrow> 'm exporter" where
  "run [] x = x"
| "run (e # es) x = run es (step e x)"

section \<open>Instrumentation engine (function autometrics)\<close>

text \<open>
  \<open>Attributes\<close> of a metric observation: keys in the order the object literal lists them;
  a value may be \<open>undefined\<close> (\<open>None\<close>).
\<close>

type_synonym attributes = "(string \<times> string option) list"

datatype emission =
    CounterAdd int attributes
  | HistogramRecord real attributes
  | GaugeAdd int attributes
  | MetricsRecorded

datatype 'e diagnostic = Warn string | Trace string 'e

text \<open>The module variable \<open>asyncLocalStorage\<close>: undefined, or an instance with its current store.\<close>

datatype als = Undefined | ALS "string option"

record 'e runtime =
  asyncLocalStorage :: als
  modulePath :: "string option"
  now :: real
  emissions :: "emission list"
  diagnostics :: "'e diagnostic list"

definition emit :: "emission \<Rightarrow> 'e runtime \<Rightarrow> 'e runtime" where
  "emit e s = s\<lparr>emissions := emissions s @ [e]\<rparr>"

definition warn :: "string \<Rightarrow> 'e runtime \<Rightarrow> 'e runtime" where
  "warn msg s = s\<lparr>diagnostics := diagnostics s @ [Warn msg]\<rparr>"

definition trace :: "string \<Rightarrow> 'e \<Rightarrow> 'e runtime \<Rightarrow> 'e runtime" where
  "trace msg e s = s\<lparr>diagnostics := diagnostics s @ [Trace msg e]\<rparr>"

text \<open>
  Modelled from the spec: \<open>getALSCaller\<close> and \<open>getModulePath\<close> live in \<open>utils\<close>, which is
  not part of the sources. Reading the caller context yields the caller of the innermost
  \<open>run\<close> scope, and the "no caller" sentinel (\<open>None\<close>) outside any scope or when there is no
  storage instance; the module path is whatever the runtime finds for the wrapping call.
\<close>

definition getALSCaller :: "als \<Rightarrow> string option" where
  "getALSCaller a = (case a of Undefined \<Rightarrow> None | ALS store \<Rightarrow> store)"

definition getModulePath :: "'e runtime \<Rightarrow> string option" where
  "getModulePath s = modulePath s"

record objective =
  name :: string
  successRate :: "string option"
  latency :: "(string \<times> string) option"

text \<open>What a predicate given as \<open>recordErrorIf\<close> or \<open>recordSuccessIf\<close> does: answer, or throw.\<close>

datatype 'e verdict = Says bool | Raises 'e

record ('v, 'e) options =
  opt_functionName :: "string option"
  opt_moduleName :: "string option"
  opt_objective :: "objective option"
  opt_trackConcurrency :: "bool option"
  opt_recordErrorIf :: "('v \<Rightarrow> 'e verdict) option"
  opt_recordSuccessIf :: "('e \<Rightarrow> 'e verdict) option"

text \<open>The variables the returned wrapper closes over.\<close>

record ('v, 'e) closure =
  functionName :: string
  moduleName :: "string option"
  counterObjectiveAttributes :: attributes
  histogramObjectiveAttributes :: attributes
  trackConcurrency :: bool
  caller :: "string option"
  recordErrorIf :: "('v \<Rightarrow> 'e verdict) option"
  recordSuccessIf :: "('e \<Rightarrow> 'e verdict) option"

text \<open>
  What one application \<open>fn.apply(this, params)\<close> of a function does depends on the
  receiver \<open>this\<close> (\<open>None\<close> when there is none: \<open>undefined\<close> or \<open>null\<close>) and on the
  arguments: the calls it makes to other functions, each with its own receiver and
  arguments, the time it takes, and how it ends. A promise that never settles is
  \<open>NeverSettles\<close>.
\<close>

datatype ('v, 'e) outcome = Returns 'v | Throws 'e | Fulfils 'v | Rejects 'e | NeverSettles

datatype ('v, 'e) fn =
    Fn (fn_name: string) (fn_body: "'v option \<Rightarrow> 'v list \<Rightarrow> ('v, 'e) behaviour")
and ('v, 'e) behaviour =
    Behaviour (calls: "('v, 'e) call list") (elapsed: real) (ending: "('v, 'e) outcome")
and ('v, 'e) call =
    Call "('v, 'e) callable" "'v option" "'v list"
and ('v, 'e) callable =
    Plain "('v, 'e) fn"
  | Instrumented "('v, 'e) closure" "('v, 'e) fn"

text \<open>An object spread \<open>{...base, ...extra}\<close>: a key of \<open>extra\<close> already present keeps its place.\<close>

definition spread :: "attributes \<Rightarrow> attributes \<Rightarrow> attributes" where
  "spread base extra = foldl (\<lambda>acc kv. AList.update (fst kv) (snd kv) acc) base extra"

definition counter_attributes :: "('v, 'e) closure \<Rightarrow> string \<Rightarrow> attributes" where
  "counter_attributes c result =
     spread [(''function'', Some (functionName c)), (''module'', moduleName c),
             (''result'', Some result), (''caller'', caller c)]
            (counterObjectiveAttributes c)"

definition histogram_attributes :: "('v, 'e) closure \<Rightarrow> attributes" where
  "histogram_attributes c =
     spread [(''function'', Some (functionName c)), (''module'', moduleName c),
             (''caller'', caller c)]
            (histogramObjectiveAttributes c)"

definition make_counterObjectiveAttributes :: "objective option \<Rightarrow> attributes" where
  "make_counterObjectiveAttributes obj =
     (let attrs = [(''objective_name'', Some []), (''objective_percentile'', Some [])]
      in case obj of
           None \<Rightarrow> attrs
         | Some ob \<Rightarrow>
             (let attrs1 = AList.update ''objective_name'' (Some (name ob)) attrs
              in case successRate ob of
                   None \<Rightarrow> attrs1
                 | Some rate \<Rightarrow>
                     if rate \<noteq> [] then AList.update ''objective_percentile'' (Some rate) attrs1
                     else attrs1))"

definition make_histogramObjectiveAttributes :: "objective option \<Rightarrow> attributes" where
  "make_histogramObjectiveAttributes obj =
     (let attrs = [(''objective_name'', Some []), (''objective_latency_threshold'', Some []),
                   (''objective_percentile'', Some [])]
      in case obj of
           None \<Rightarrow> attrs
         | Some ob \<Rightarrow>
             (let attrs1 = AList.update ''objective_name'' (Some (name ob)) attrs
              in case latency ob of
                   None \<Rightarrow> attrs1
                 | Some (threshold, latencyPercentile) \<Rightarrow>
                     AList.update ''objective_percentile'' (Some latencyPercentile)
                       (AList.update ''objective_latency_threshold'' (Some threshold) attrs1)))"

definition autometrics ::
  "('v, 'e) options option \<Rightarrow> ('v, 'e) fn \<Rightarrow> 'e runtime \<Rightarrow> ('v, 'e) callable \<times> 'e runtime" where
  "autometrics fnOrOptions fn s =
     (let functionName =
            (case fnOrOptions of
               None \<Rightarrow> fn_name fn
             | Some opts \<Rightarrow>
                 (case opt_functionName opts of None \<Rightarrow> fn_name fn | Some n \<Rightarrow> n));
          moduleName =
            (case fnOrOptions of
               None \<Rightarrow> getModulePath s
             | Some opts \<Rightarrow>
                 (case opt_moduleName opts of None \<Rightarrow> getModulePath s | Some m \<Rightarrow> Some m));
          objective = (case fnOrOptions of None \<Rightarrow> None | Some opts \<Rightarrow> opt_objective opts);
          trackConcurrency =
            (case fnOrOptions of
               None \<Rightarrow> False
             | Some opts \<Rightarrow>
                 (case opt_trackConcurrency opts of None \<Rightarrow> False | Some b \<Rightarrow> b));
          recordErrorIf = (case fnOrOptions of None \<Rightarrow> None | Some opts \<Rightarrow> opt_recordErrorIf opts);
          recordSuccessIf =
            (case fnOrOptions of None \<Rightarrow> None | Some opts \<Rightarrow> opt_recordSuccessIf opts)
      in if functionName = [] then
           (Plain fn,
            warn ''Decorated functions must have a name to successfully create a metric. Function will not be instrumented.'' s)
         else
           (let c = \<lparr> functionName = functionName,
                      moduleName = moduleName,
                      counterObjectiveAttributes = make_counterObjectiveAttributes objective,
                      histogramObjectiveAttributes = make_histogramObjectiveAttributes objective,
                      trackConcurrency = trackConcurrency,
                      caller = getALSCaller (asyncLocalStorage s),
                      recordErrorIf = recordErrorIf,
                      recordSuccessIf = recordSuccessIf \<rparr>
            in (Instrumented c fn, emit (CounterAdd 0 (counter_attributes c ''ok'')) s)))"

definition gauge_attributes :: "('v, 'e) closure \<Rightarrow> attributes" where
  "gauge_attributes c = [(''function'', Some (functionName c)), (''module'', moduleName c)]"

definition onSuccess :: "('v, 'e) closure \<Rightarrow> real \<Rightarrow> 'e runtime \<Rightarrow> 'e runtime" where
  "onSuccess c autometricsStart s =
     (let autometricsDuration = (now s - autometricsStart) / 1000;
          s1 = emit (CounterAdd 1 (counter_attributes c ''ok'')) s;
          s2 = emit (HistogramRecord autometricsDuration (histogram_attributes c)) s1;
          s3 = (if trackConcurrency c then emit (GaugeAdd (- 1) (gauge_attributes c)) s2 else s2)
      in emit MetricsRecorded s3)"

definition onError :: "('v, 'e) closure \<Rightarrow> real \<Rightarrow> 'e runtime \<Rightarrow> 'e runtime" where
  "onError c autometricsStart s =
     (let autometricsDuration = (now s - autometricsStart) / 1000;
          s1 = emit (CounterAdd 1 (counter_attributes c ''error'')) s;
          s2 = emit (HistogramRecord autometricsDuration (histogram_attributes c)) s1;
          s3 = (if trackConcurrency c then
                  emit (GaugeAdd (- 1) [(''function'', Some (functionName c)),
                                        (''module'', moduleName c), (''caller'', caller c)]) s2
                else s2)
      in emit MetricsRecorded s3)"

definition recordSuccess :: "('v, 'e) closure \<Rightarrow> real \<Rightarrow> 'v \<Rightarrow> 'e runtime \<Rightarrow> 'e runtime" where
  "recordSuccess c autometricsStart returnValue s =
     (case recordErrorIf c of
        None \<Rightarrow> onSuccess c autometricsStart s
      | Some p \<Rightarrow>
          (case p returnValue of
             Says b \<Rightarrow> if b then onError c autometricsStart s else onSuccess c autometricsStart s
           | Raises callbackError \<Rightarrow>
               trace ''Error in recordErrorIf function: '' callbackError
                 (onSuccess c autometricsStart s)))"

definition recordError :: "('v, 'e) closure \<Rightarrow> real \<Rightarrow> 'e \<Rightarrow> 'e runtime \<Rightarrow> 'e runtime" where
  "recordError c autometricsStart error s =
     (case recordSuccessIf c of
        None \<Rightarrow> onError c autometricsStart s
      | Some p \<Rightarrow>
          (case p error of
             Says b \<Rightarrow> if b then onSuccess c autometricsStart s else onError c autometricsStart s
           | Raises callbackError \<Rightarrow>
               trace ''Error in recordSuccessIf function: '' callbackError
                 (onError c autometricsStart s)))"

text \<open>
  The handlers of \<open>instrumentedFn\<close>, given how the application of \<open>fn\<close> ended: the
  synchronous path, the \<open>catch\<close> clause, and the \<open>then\<close> and \<open>catch\<close> handlers chained to
  a promise. Nothing is chained that runs when the promise never settles.
\<close>

definition settle_call ::
  "('v, 'e) closure \<Rightarrow> real \<Rightarrow> ('v, 'e) outcome \<times> 'e runtime \<Rightarrow> ('v, 'e) outcome \<times> 'e runtime" where
  "settle_call c autometricsStart r =
     (case r of
        (Returns returnValue, s) \<Rightarrow>
          (Returns returnValue, recordSuccess c autometricsStart returnValue s)
      | (Throws error, s) \<Rightarrow> (Throws error, recordError c autometricsStart error s)
      | (Fulfils result, s) \<Rightarrow> (Fulfils result, recordSuccess c autometricsStart result s)
      | (Rejects error, s) \<Rightarrow> (Rejects error, recordError c autometricsStart error s)
      | (NeverSettles, s) \<Rightarrow> (NeverSettles, s))"

definition enter :: "('v, 'e) closure \<Rightarrow> 'e runtime \<Rightarrow> 'e runtime" where
  "enter c s =
     (if trackConcurrency c then emit (GaugeAdd 1 (gauge_attributes c)) s else s)"

text \<open>
  \<open>instrumentedFn\<close> is an ordinary (non-arrow) function, so \<open>this\<close> inside it is its own
  receiver, and that is what it hands to \<open>fn.apply\<close>. \<open>fn_apply this params\<close> is the
  application \<open>fn.apply(this, params)\<close>.
\<close>

definition instrumentedFn ::
  "('v, 'e) closure \<Rightarrow>
   ('v option \<Rightarrow> 'v list \<Rightarrow> 'e runtime \<Rightarrow> ('v, 'e) outcome \<times> 'e runtime) \<Rightarrow>
   'v list \<Rightarrow> real \<Rightarrow> 'v option \<Rightarrow> 'e runtime \<Rightarrow> ('v, 'e) outcome \<times> 'e runtime" where
  "instrumentedFn c fn_apply params autometricsStart this s =
     settle_call c autometricsStart (fn_apply this params s)"

definition in_order :: "('s \<Rightarrow> 's) list \<Rightarrow> 's \<Rightarrow> 's" where
  "in_order ks s = foldl (\<lambda>s1 k. k s1) s ks"

text \<open>
  The returned wrapper, called with a receiver and arguments. It calls \<open>instrumentedFn\<close>
  either as \<open>instrumentedFn()\<close> or through \<open>asyncLocalStorage.run(store, instrumentedFn)\<close>:
  both call it without a receiver, whatever the receiver of the wrapper itself.
  \<open>asyncLocalStorage.run\<close> puts the store in force for the callback and restores the
  previous one afterwards. The calls a function makes happen in order; each ends before the
  next starts.
\<close>

primrec wrapper ::
  "('v, 'e) callable \<Rightarrow> 'v option \<Rightarrow> 'v list \<Rightarrow> 'e runtime \<Rightarrow> ('v, 'e) outcome \<times> 'e runtime"
and apply_fn ::
  "('v, 'e) fn \<Rightarrow> 'v option \<Rightarrow> 'v list \<Rightarrow> 'e runtime \<Rightarrow> ('v, 'e) outcome \<times> 'e runtime"
and run_behaviour :: "('v, 'e) behaviour \<Rightarrow> 'e runtime \<Rightarrow> ('v, 'e) outcome \<times> 'e runtime"
and make_call :: "('v, 'e) call \<Rightarrow> 'e runtime \<Rightarrow> 'e runtime" where
  "wrapper (Plain f) this params s = apply_fn f this params s"
| "wrapper (Instrumented c f) this params s =
     (let autometricsStart = now s;
          s1 = enter c s
      in case asyncLocalStorage s1 of
           ALS store \<Rightarrow>
             (case instrumentedFn c (apply_fn f) params autometricsStart None
                     (s1\<lparr>asyncLocalStorage := ALS (Some (functionName c))\<rparr>) of
                (r, s2) \<Rightarrow> (r, s2\<lparr>asyncLocalStorage := ALS store\<rparr>))
         | Undefined \<Rightarrow> instrumentedFn c (apply_fn f) params autometricsStart None s1)"
| "apply_fn (Fn n body) this params s = run_behaviour (body this params) s"
| "run_behaviour (Behaviour cs dt out) s =
     (let s1 = in_order (map make_call cs) s in (out, s1\<lparr>now := now s1 + dt\<rparr>))"
| "make_call (Call w this params) s = snd (wrapper w this params s)"

text \<open>
  The runtime at the moment the application of \<open>fn\<close> made by an invocation of the wrapper
  has ended and the wrapper's handlers have not yet run.
\<close>

definition body_start :: "('v, 'e) closure \<Rightarrow> 'e runtime \<Rightarrow> 'e runtime" where
  "body_start c s =
     (case asyncLocalStorage s of
        Undefined \<Rightarrow> enter c s
      | ALS store \<Rightarrow> (enter c s)\<lparr>asyncLocalStorage := ALS (Some (functionName c))\<rparr>)"

definition body_end ::
  "('v, 'e) closure \<Rightarrow> ('v, 'e) fn \<Rightarrow> 'v list \<Rightarrow> 'e runtime \<Rightarrow> 'e runtime" where
  "body_end c f params s = snd (apply_fn f None params (body_start c s))"

text \<open>
  Modelled from the spec: the metrics backend is outside the sources. Labels are flat
  string-keyed maps, and the value of an up/down counter under a label set is the sum of
  the deltas added under exactly that label set.
\<close>

definition same_attributes :: "attributes \<Rightarrow> attributes \<Rightarrow> bool" where
  "same_attributes a b = (list_all (\<lambda>kv. kv \<in> set b) a \<and> list_all (\<lambda>kv. kv \<in> set a) b)"

fun gauge_delta :: "attributes \<Rightarrow> emission \<Rightarrow> int" where
  "gauge_delta labels (GaugeAdd d l) = (if same_attributes l labels then d else 0)"
| "gauge_delta labels _ = 0"

definition gauge_value :: "emission list \<Rightarrow> attributes \<Rightarrow> int" where
  "gauge_value es labels = sum_list (map (gauge_delta labels) es)"

section \<open>Scenarios\<close>

text \<open>
  Concrete runtimes, functions and exporters on which the theorems below are exercised.
  \<open>top_level\<close> is a server-side runtime outside any instrumented call; \<open>example_A\<close> wraps
  a function \<open>A\<close> whose body calls the wrapped function \<open>B\<close>; \<open>api_options\<close> follows the
  objective and the \<open>recordErrorIf\<close> of the examples in the sources. \<open>getUsers\<close> is a
  method in the manner of the example class \<open>DatabaseClient\<close>: asynchronous, it gives back
  what it reads from its receiver, and reading from no receiver is a \<open>TypeError\<close>.
  \<open>plain\<close> is a function that ignores its receiver and arguments.
\<close>

definition top_level :: "'e runtime" where
  "top_level = \<lparr> asyncLocalStorage = ALS None, modulePath = Some ''app'', now = 0,
                  emissions = [], diagnostics = [] \<rparr>"

definition plain :: "string \<Rightarrow> real \<Rightarrow> ('v, 'e) outcome \<Rightarrow> ('v, 'e) fn" where
  "plain n dt out = Fn n (\<lambda>this params. Behaviour [] dt out)"

definition example_B :: "(nat, nat) callable \<times> nat runtime" where
  "example_B = autometrics None (plain ''B'' 1 (Returns 0)) top_level"

definition example_A :: "(nat, nat) callable \<times> nat runtime" where
  "example_A =
     autometrics None
       (Fn ''A'' (\<lambda>this params. Behaviour [Call (fst example_B) None []] 2 (Returns 0)))
       (snd example_B)"

definition tracked :: "(nat, nat) outcome \<Rightarrow> (nat, nat) callable \<times> nat runtime" where
  "tracked out =
     autometrics
       (Some \<lparr> opt_functionName = None, opt_moduleName = None, opt_objective = None,
                opt_trackConcurrency = Some True, opt_recordErrorIf = None,
                opt_recordSuccessIf = None \<rparr>)
       (plain ''f'' 5 out) top_level"

definition getUsers :: "(nat, string) fn" where
  "getUsers =
     Fn ''getUsers''
        (\<lambda>this params.
           case this of
             None \<Rightarrow> Behaviour [] 0 (Rejects ''TypeError'')
           | Some db \<Rightarrow> Behaviour [] 1 (Fulfils db))"

definition api_options :: "(nat, nat) options" where
  "api_options =
     \<lparr> opt_functionName = None, opt_moduleName = None,
       opt_objective =
         Some \<lparr> name = ''api'', successRate = Some ''99'', latency = Some (''0.25'', ''99'') \<rparr>,
       opt_trackConcurrency = Some True,
       opt_recordErrorIf = Some (\<lambda>status. Says (400 \<le> status)),
       opt_recordSuccessIf = None \<rparr>"

definition api_closure :: "(nat, nat) closure" where
  "api_closure =
     \<lparr> functionName = ''getUsers'', moduleName = Some ''app'',
       counterObjectiveAttributes =
         [(''objective_name'', Some ''api''), (''objective_percentile'', Some ''99'')],
       histogramObjectiveAttributes =
         [(''objective_name'', Some ''api''), (''objective_latency_threshold'', Some ''0.25''),
          (''objective_percentile'', Some ''99'')],
       trackConcurrency = True, caller = None,
       recordErrorIf = Some (\<lambda>status. Says (400 \<le> status)),
       recordSuccessIf = None \<rparr>"

definition plain_closure :: "(nat, nat) closure" where
  "plain_closure =
     \<lparr> functionName = ''B'', moduleName = Some ''app'',
       counterObjectiveAttributes =
         [(''objective_name'', Some []), (''objective_percentile'', Some [])],
       histogramObjectiveAttributes =
         [(''objective_name'', Some []), (''objective_latency_threshold'', Some []),
          (''objective_percentile'', Some [])],
       trackConcurrency = False, caller = None, recordErrorIf = None,
       recordSuccessIf = None \<rparr>"

definition faulty_options :: "(nat, nat) options" where
  "faulty_options =
     \<lparr> opt_functionName = None, opt_moduleName = None, opt_objective = None,
       opt_trackConcurrency = None,
       opt_recordErrorIf = Some (\<lambda>v. Raises 1),
       opt_recordSuccessIf = Some (\<lambda>e. Raises 2) \<rparr>"

definition faulty_closure :: "(nat, nat) closure" where
  "faulty_closure =
     plain_closure\<lparr> recordErrorIf := Some (\<lambda>v. Raises 1),
                    recordSuccessIf := Some (\<lambda>e. Raises 2) \<rparr>"

definition two_in_flight :: "string exporter" where
  "two_in_flight = run [Export ''a'' 0, Export ''b'' 1] (PushGatewayExporter None False)"

definition at_limit :: "string exporter" where
  "at_limit = run [Export ''a'' 0] (PushGatewayExporter (Some 1) False)"

definition at_limit_shut_down :: "string exporter" where
  "at_limit_shut_down = run [Export ''a'' 0, Shutdown] (PushGatewayExporter (Some 1) False)"

section \<open>The export pipeline: admission, flush and shutdown\<close>

lemmas exporter_defs = export_def export_inner_def callback_def settle_def fetch_state_of_def
  indexOf_def splice1_def shutdown_def bindOnceFuture_call_def shutdown_inner_def forceFlush_def
  PushGatewayExporter_def flush_state_def promise_all_def is_rejected_def is_fulfilled_def
  is_settled_def

lemma length_splice1: "length (splice1 i xs) \<le> length xs"
  by (simp add: splice1_def Let_def)

lemma step_limit: "concurrencyLimit (step e x) = concurrencyLimit x"
  by (cases e) (auto simp: export_def export_inner_def callback_def settle_def Let_def
      shutdown_def bindOnceFuture_call_def shutdown_inner_def
      split: prod.splits fetch_outcome.splits)

lemma step_inflight:
  "enat (length (sendingPromises x)) \<le> concurrencyLimit x \<Longrightarrow>
   enat (length (sendingPromises (step e x))) \<le> concurrencyLimit (step e x)"
proof (cases e)
  case (Export m cb)
  assume inv: "enat (length (sendingPromises x)) \<le> concurrencyLimit x"
  show ?thesis
  proof (cases "isCalled x \<or> concurrencyLimit x \<le> enat (length (sendingPromises x))")
    case True
    with inv Export show ?thesis by (auto simp: export_def callback_def)
  next
    case False
    then have "enat (length (sendingPromises x)) < concurrencyLimit x"
      by (simp add: not_le)
    then have "enat (Suc (length (sendingPromises x))) \<le> concurrencyLimit x"
      by (simp add: Suc_ile_eq)
    with False Export show ?thesis by (simp add: export_def export_inner_def Let_def)
  qed
next
  case (Settle h outcome)
  assume inv: "enat (length (sendingPromises x)) \<le> concurrencyLimit x"
  have "length (sendingPromises (settle h outcome x)) \<le> length (sendingPromises x)"
    by (auto simp: settle_def callback_def Let_def length_splice1
        split: prod.splits fetch_outcome.splits)
  moreover have "concurrencyLimit (settle h outcome x) = concurrencyLimit x"
    using step_limit [of "Settle h outcome" x] by simp
  ultimately show ?thesis using inv Settle
    by (metis enat_ord_simps(1) order_trans step.simps(2))
next
  case ForceFlush
  assume "enat (length (sendingPromises x)) \<le> concurrencyLimit x"
  with ForceFlush show ?thesis by simp
next
  case Shutdown
  assume "enat (length (sendingPromises x)) \<le> concurrencyLimit x"
  with Shutdown show ?thesis
    by (auto simp: shutdown_def bindOnceFuture_call_def shutdown_inner_def Let_def
        split: prod.splits)
qed

lemma run_inflight:
  "enat (length (sendingPromises x)) \<le> concurrencyLimit x \<Longrightarrow>
   enat (length (sendingPromises (run evs x))) \<le> concurrencyLimit (run evs x)"
  by (induction evs arbitrary: x) (simp_all add: step_inflight)

lemma step_keeps_shutdown:
  "e \<noteq> Shutdown \<Longrightarrow>
   isCalled (step e x) = isCalled x \<and> deferred (step e x) = deferred x \<and>
   debugLog (step e x) = debugLog x \<and> shutdownReturns (step e x) = shutdownReturns x"
  by (cases e) (auto simp: export_def export_inner_def callback_def settle_def Let_def
      split: prod.splits fetch_outcome.splits)

lemma run_without_shutdown:
  "Shutdown \<notin> set evs \<Longrightarrow>
   isCalled (run evs x) = isCalled x \<and> deferred (run evs x) = deferred x \<and>
   debugLog (run evs x) = debugLog x \<and> shutdownReturns (run evs x) = shutdownReturns x"
proof (induction evs arbitrary: x)
  case Nil
  then show ?case by simp
next
  case (Cons e evs)
  then have "e \<noteq> Shutdown" and "Shutdown \<notin> set evs" by auto
  with Cons.IH [of "step e x"] step_keeps_shutdown [of e x] show ?case by simp
qed

lemma step_shutdown_again:
  "isCalled x \<Longrightarrow>
   isCalled (step Shutdown x) \<and> deferred (step Shutdown x) = deferred x \<and>
   debugLog (step Shutdown x) = debugLog x \<and>
   shutdownReturns (step Shutdown x) = shutdownReturns x @ [deferred x]"
  by (simp add: shutdown_def bindOnceFuture_call_def)

lemma run_after_shutdown:
  "isCalled x \<Longrightarrow>
   isCalled (run evs x) \<and> deferred (run evs x) = deferred x \<and>
   debugLog (run evs x) = debugLog x \<and>
   shutdownReturns (run evs x) =
     shutdownReturns x @ replicate (count_list evs Shutdown) (deferred x)"
proof (induction evs arbitrary: x)
  case Nil
  then show ?case by simp
next
  case (Cons e evs)
  show ?case
  proof (cases "e = Shutdown")
    case True
    with Cons.prems step_shutdown_again [of x] Cons.IH [of "step Shutdown x"]
    show ?thesis by (simp add: replicate_app_Cons_same)
  next
    case False
    with Cons.prems step_keeps_shutdown [of e x] Cons.IH [of "step e x"]
    show ?thesis by simp
  qed
qed

lemma step_first_shutdown:
  "\<not> isCalled x \<Longrightarrow>
   isCalled (step Shutdown x) \<and> deferred (step Shutdown x) = Some (forceFlush x) \<and>
   debugLog (step Shutdown x) = debugLog x @ [''shutdown started''] \<and>
   shutdownReturns (step Shutdown x) = shutdownReturns x @ [Some (forceFlush x)]"
  by (simp add: shutdown_def bindOnceFuture_call_def shutdown_inner_def forceFlush_def Let_def)

lemma run_append: "run (xs @ ys) x = run ys (run xs x)"
  by (induction xs arbitrary: x) simp_all

lemma isCalled_after_shutdown_event:
  assumes "Shutdown \<in> set evs"
  shows "isCalled (run evs x)"
proof -
  from assms obtain pre post where d: "evs = pre @ Shutdown # post"
    by (meson split_list)
  have "isCalled (step Shutdown (run pre x))"
    by (simp add: shutdown_def bindOnceFuture_call_def shutdown_inner_def Let_def
        split: prod.splits)
  then have "isCalled (run post (step Shutdown (run pre x)))"
    using run_after_shutdown by blast
  then show ?thesis by (simp add: d run_append)
qed

text \<open>
  A flush that is fulfilled has seen every delivery it waited for fulfilled. Nothing of the
  kind holds for a flush that is rejected, as the next theorem shows.
\<close>

lemma flush_fulfilled_all_settled:
  assumes "flush_state x flush = Fulfilled" and "h \<in> set flush"
  shows "is_settled (fetch_state_of x h)"
proof -
  from assms(1) have "list_all is_fulfilled (map (fetch_state_of x) flush)"
    by (simp add: flush_state_def promise_all_def split: if_splits)
  with assms(2) have "is_fulfilled (fetch_state_of x h)"
    by (simp add: list_all_iff)
  then show ?thesis
    by (auto simp: is_fulfilled_def is_settled_def split: fetch_state.splits fetch_outcome.splits)
qed

text \<open>
  Claim C2. The claim says that a flush settles only after every delivery that was in
  flight when it was called has settled, whether those deliveries succeed or fail. The
  exporter does otherwise when a delivery fails in transport: with two deliveries in
  flight, a flush is requested, then the first delivery is rejected by the network. The
  flush is rejected at once, while the second delivery is still pending and still in
  \<open>_sendingPromises\<close>.
\<close>

theorem flush_rejects_while_delivery_pending:
  "forceFlush two_in_flight = [0, 1]
   \<and> flush_state two_in_flight (forceFlush two_in_flight) = Pending
   \<and> flush_state (settle 0 (NetworkError ''offline'') two_in_flight)
        (forceFlush two_in_flight) = Rejected
   \<and> fetch_state_of (settle 0 (NetworkError ''offline'') two_in_flight) 1 = FetchPending
   \<and> sendingPromises (settle 0 (NetworkError ''offline'') two_in_flight) = [1]"
  by (simp add: two_in_flight_def exporter_defs)

text \<open>
  Claim C4. Whatever the exporter is asked to do, in whatever order, once shutdown has been
  requested at least once: the teardown has run exactly once (one line "shutdown started"
  in the debug log), it was run by the first request and flushed the deliveries in flight
  at that moment, and every request, the first and all later ones, was handed the same
  promise, the one of that flush.
\<close>

theorem shutdown_teardown_once:
  assumes "evs = pre @ Shutdown # post" and "Shutdown \<notin> set pre"
  shows "length (filter (\<lambda>l. l = ''shutdown started'')
           (debugLog (run evs (PushGatewayExporter limit w)))) = 1
       \<and> shutdownReturns (run evs (PushGatewayExporter limit w)) =
           replicate (Suc (count_list post Shutdown))
             (Some (forceFlush (run pre (PushGatewayExporter limit w))))
       \<and> deferred (run evs (PushGatewayExporter limit w)) =
           Some (forceFlush (run pre (PushGatewayExporter limit w)))"
proof -
  let ?x0 = "PushGatewayExporter limit w :: 'a exporter"
  let ?x1 = "run pre ?x0"
  let ?x2 = "step Shutdown ?x1"
  have a: "\<not> isCalled ?x1 \<and> debugLog ?x1 = [] \<and> shutdownReturns ?x1 = []"
    using run_without_shutdown [OF assms(2), of ?x0] by (simp add: PushGatewayExporter_def)
  then have b: "isCalled ?x2 \<and> deferred ?x2 = Some (forceFlush ?x1) \<and>
      debugLog ?x2 = [''shutdown started''] \<and> shutdownReturns ?x2 = [Some (forceFlush ?x1)]"
    using step_first_shutdown [of ?x1] by simp
  have c: "run evs ?x0 = run post ?x2"
    by (simp add: assms(1) run_append)
  from b run_after_shutdown [of ?x2 post] c show ?thesis
    by (simp add: replicate_app_Cons_same)
qed

theorem shutdown_teardown_once_witness:
  "[Export ''a'' 0, Shutdown, Settle 0 (NetworkError ''offline''), Shutdown] =
     [Export ''a'' 0] @ Shutdown # [Settle 0 (NetworkError ''offline''), Shutdown]
   \<and> Shutdown \<notin> set [Export ''a'' 0]
   \<and> length (filter (\<lambda>l. l = ''shutdown started'')
       (debugLog (run [Export ''a'' 0, Shutdown, Settle 0 (NetworkError ''offline''), Shutdown]
          (PushGatewayExporter (Some 2) True)))) = 1
   \<and> shutdownReturns
       (run [Export ''a'' 0, Shutdown, Settle 0 (NetworkError ''offline''), Shutdown]
          (PushGatewayExporter (Some 2) True)) = [Some [0], Some [0]]"
  using shutdown_teardown_once
    [of "[Export ''a'' 0, Shutdown, Settle 0 (NetworkError ''offline''), Shutdown]"
        "[Export ''a'' 0]" "[Settle 0 (NetworkError ''offline''), Shutdown]" "Some 2" True]
  by (simp add: exporter_defs)

text \<open>
  Claim C5, as stated, fails: the claim promises the concurrency-limit failure to every
  export call made while the limit is reached. With a limit of one, one delivery in flight
  and shutdown requested, the limit is reached and the callback is given the shut-down
  failure instead, because \<open>export\<close> tests the shutdown flag first.
\<close>

theorem export_at_limit_after_shutdown:
  "concurrencyLimit at_limit_shut_down \<le> enat (length (sendingPromises at_limit_shut_down))
   \<and> results (export ''b'' 1 at_limit_shut_down) =
       results at_limit_shut_down @ [(1, FAILED ''Exporter has been shutdown'')]
   \<and> results (export ''b'' 1 at_limit_shut_down) \<noteq>
       results at_limit_shut_down @ [(1, FAILED ''Concurrent export limit reached'')]"
  by (simp add: at_limit_shut_down_def exporter_defs)

text \<open>
  Claim C5, amended. In every state the exporter can reach, the number of deliveries in
  flight is at most \<open>concurrencyLimit\<close>. An export call made when that number has reached
  the limit starts no delivery; if shutdown has not been requested, all it does is invoke
  the result callback, at once, with the concurrency-limit failure.
\<close>

theorem inflight_bounded_rejected_at_limit:
  assumes "x = run evs (PushGatewayExporter limit w)"
  shows "enat (length (sendingPromises x)) \<le> concurrencyLimit x
       \<and> (concurrencyLimit x \<le> enat (length (sendingPromises x)) \<longrightarrow>
            fetches (export m cb x) = fetches x
            \<and> sendingPromises (export m cb x) = sendingPromises x
            \<and> (\<not> isCalled x \<longrightarrow>
                 export m cb x =
                   x\<lparr>results := results x @ [(cb, FAILED ''Concurrent export limit reached'')]\<rparr>))"
proof -
  have "enat (length (sendingPromises (run evs (PushGatewayExporter limit w :: 'a exporter))))
      \<le> concurrencyLimit (run evs (PushGatewayExporter limit w :: 'a exporter))"
    by (rule run_inflight) (simp add: PushGatewayExporter_def split: option.split)
  then show ?thesis
    by (simp add: assms export_def callback_def)
qed

theorem inflight_bounded_rejected_at_limit_witness:
  "at_limit = run [Export ''a'' 0] (PushGatewayExporter (Some 1) False)
   \<and> concurrencyLimit at_limit \<le> enat (length (sendingPromises at_limit))
   \<and> \<not> isCalled at_limit
   \<and> enat (length (sendingPromises at_limit)) \<le> concurrencyLimit at_limit
   \<and> fetches (export ''b'' 1 at_limit) = [(0, ''a'', FetchPending)]
   \<and> export ''b'' 1 at_limit =
       at_limit\<lparr>results := [(1, FAILED ''Concurrent export limit reached'')]\<rparr>"
  using inflight_bounded_rejected_at_limit
    [of at_limit "[Export ''a'' 0]" "Some 1" False "''b''" 1]
  by (simp add: at_limit_def exporter_defs)

text \<open>
  Claim C10. From the first request of shutdown on, whatever happens afterwards and whether
  or not the flush of the teardown has settled, an export call does one thing only: it
  invokes the result callback with the failure "Exporter has been shutdown". The record of
  posts and the deliveries in flight are as before, so nothing was serialised or sent.
\<close>

theorem export_after_shutdown_request:
  assumes "Shutdown \<in> set evs"
  shows "export m cb (run evs (PushGatewayExporter limit w)) =
           (run evs (PushGatewayExporter limit w))
             \<lparr>results := results (run evs (PushGatewayExporter limit w)) @
                [(cb, FAILED ''Exporter has been shutdown'')]\<rparr>"
proof -
  have "isCalled (run evs (PushGatewayExporter limit w :: 'a exporter))"
    using assms by (rule isCalled_after_shutdown_event)
  then show ?thesis by (simp add: export_def callback_def)
qed

theorem export_after_shutdown_request_witness:
  "Shutdown \<in> set [Export ''a'' 0, Shutdown]
   \<and> deferred (run [Export ''a'' 0, Shutdown] (PushGatewayExporter None False)) = Some [0]
   \<and> flush_state (run [Export ''a'' 0, Shutdown] (PushGatewayExporter None False)) [0] = Pending
   \<and> results (export ''b'' 1 (run [Export ''a'' 0, Shutdown] (PushGatewayExporter None False))) =
       [(1, FAILED ''Exporter has been shutdown'')]
   \<and> fetches (export ''b'' 1 (run [Export ''a'' 0, Shutdown] (PushGatewayExporter None False))) =
       [(0, ''a'', FetchPending)]"
  using export_after_shutdown_request [of "[Export ''a'' 0, Shutdown]" "''b''" 1 None False]
  by (simp add: exporter_defs)

section \<open>The instrumentation engine: outcome, classification and labels\<close>

lemmas engine_defs = autometrics_def make_counterObjectiveAttributes_def
  make_histogramObjectiveAttributes_def counter_attributes_def histogram_attributes_def
  gauge_attributes_def spread_def getALSCaller_def getModulePath_def emit_def warn_def trace_def
  onSuccess_def onError_def recordSuccess_def recordError_def settle_call_def enter_def
  instrumentedFn_def in_order_def body_start_def body_end_def

lemmas scenario_defs = top_level_def plain_def example_B_def example_A_def tracked_def
  getUsers_def

lemma autometrics_closure:
  assumes "autometrics fnOrOptions f s = (Instrumented c g, t)"
  shows "g = f"
    and "functionName c \<noteq> []"
    and "caller c = getALSCaller (asyncLocalStorage s)"
    and "counterObjectiveAttributes c =
           make_counterObjectiveAttributes
             (case fnOrOptions of None \<Rightarrow> None | Some opts \<Rightarrow> opt_objective opts)"
    and "histogramObjectiveAttributes c =
           make_histogramObjectiveAttributes
             (case fnOrOptions of None \<Rightarrow> None | Some opts \<Rightarrow> opt_objective opts)"
    and "t = emit (CounterAdd 0 (counter_attributes c ''ok'')) s"
  using assms by (auto simp: autometrics_def Let_def split: if_splits)

lemma counter_objective_shape:
  "make_counterObjectiveAttributes obj =
     [(''objective_name'', Some (case obj of None \<Rightarrow> [] | Some ob \<Rightarrow> name ob)),
      (''objective_percentile'',
         Some (case obj of None \<Rightarrow> []
               | Some ob \<Rightarrow> (case successRate ob of None \<Rightarrow> [] | Some rate \<Rightarrow> rate)))]"
  by (auto simp: make_counterObjectiveAttributes_def Let_def split: option.splits)

lemma histogram_objective_shape:
  "make_histogramObjectiveAttributes obj =
     [(''objective_name'', Some (case obj of None \<Rightarrow> [] | Some ob \<Rightarrow> name ob)),
      (''objective_latency_threshold'',
         Some (case obj of None \<Rightarrow> []
               | Some ob \<Rightarrow> (case latency ob of None \<Rightarrow> [] | Some tp \<Rightarrow> fst tp))),
      (''objective_percentile'',
         Some (case obj of None \<Rightarrow> []
               | Some ob \<Rightarrow> (case latency ob of None \<Rightarrow> [] | Some tp \<Rightarrow> snd tp)))]"
  by (auto simp: make_histogramObjectiveAttributes_def Let_def split: option.splits)

lemma counter_attributes_made:
  assumes "counterObjectiveAttributes c = make_counterObjectiveAttributes obj"
  shows "counter_attributes c r =
     [(''function'', Some (functionName c)), (''module'', moduleName c),
      (''result'', Some r), (''caller'', caller c),
      (''objective_name'', Some (case obj of None \<Rightarrow> [] | Some ob \<Rightarrow> name ob)),
      (''objective_percentile'',
         Some (case obj of None \<Rightarrow> []
               | Some ob \<Rightarrow> (case successRate ob of None \<Rightarrow> [] | Some rate \<Rightarrow> rate)))]"
  by (simp add: counter_attributes_def assms counter_objective_shape spread_def)

lemma histogram_attributes_made:
  assumes "histogramObjectiveAttributes c = make_histogramObjectiveAttributes obj"
  shows "histogram_attributes c =
     [(''function'', Some (functionName c)), (''module'', moduleName c),
      (''caller'', caller c),
      (''objective_name'', Some (case obj of None \<Rightarrow> [] | Some ob \<Rightarrow> name ob)),
      (''objective_latency_threshold'',
         Some (case obj of None \<Rightarrow> []
               | Some ob \<Rightarrow> (case latency ob of None \<Rightarrow> [] | Some tp \<Rightarrow> fst tp))),
      (''objective_percentile'',
         Some (case obj of None \<Rightarrow> []
               | Some ob \<Rightarrow> (case latency ob of None \<Rightarrow> [] | Some tp \<Rightarrow> snd tp)))]"
  by (simp add: histogram_attributes_def assms histogram_objective_shape spread_def)

lemma fst_run_behaviour: "fst (run_behaviour b s) = ending b"
  by (cases b) (simp add: Let_def)

lemma fst_apply_fn: "fst (apply_fn f this params s) = ending (fn_body f this params)"
  by (cases f) (simp add: fst_run_behaviour)

lemma fst_settle_call: "fst (settle_call c start r) = fst r"
  by (cases r) (auto simp: settle_call_def split: outcome.splits)

lemma wrapper_Instrumented:
  "fst (wrapper (Instrumented c f) this params s) =
     fst (settle_call c (now s) (apply_fn f None params (body_start c s)))"
  "emissions (snd (wrapper (Instrumented c f) this params s)) =
     emissions (snd (settle_call c (now s) (apply_fn f None params (body_start c s))))"
  "diagnostics (snd (wrapper (Instrumented c f) this params s)) =
     diagnostics (snd (settle_call c (now s) (apply_fn f None params (body_start c s))))"
  by (auto simp: body_start_def instrumentedFn_def Let_def enter_def emit_def
      split: als.splits prod.splits)

lemma apply_fn_body_end:
  "apply_fn f None params (body_start c s) =
     (ending (fn_body f None params), body_end c f params s)"
  by (simp add: body_end_def prod_eq_iff fst_apply_fn)

text \<open>
  The wrapper ends as the application it makes ends, and that application is made without
  a receiver, whatever the receiver of the wrapper.
\<close>

lemma wrapper_passes_outcome_on:
  "fst (wrapper (Instrumented c f) this params s) = ending (fn_body f None params)"
  by (simp add: wrapper_Instrumented(1) fst_settle_call fst_apply_fn del: wrapper.simps)

lemma onSuccess_log:
  "emissions (onSuccess c a s) =
     emissions s @
     [CounterAdd 1 (counter_attributes c ''ok''),
      HistogramRecord ((now s - a) / 1000) (histogram_attributes c)] @
     (if trackConcurrency c then [GaugeAdd (- 1) (gauge_attributes c)] else []) @
     [MetricsRecorded]"
  "diagnostics (onSuccess c a s) = diagnostics s"
  by (simp_all add: onSuccess_def emit_def Let_def)

lemma onError_log:
  "emissions (onError c a s) =
     emissions s @
     [CounterAdd 1 (counter_attributes c ''error''),
      HistogramRecord ((now s - a) / 1000) (histogram_attributes c)] @
     (if trackConcurrency c then
        [GaugeAdd (- 1) [(''function'', Some (functionName c)), (''module'', moduleName c),
                         (''caller'', caller c)]]
      else []) @
     [MetricsRecorded]"
  "diagnostics (onError c a s) = diagnostics s"
  by (simp_all add: onError_def emit_def Let_def)

lemma trace_log:
  "emissions (trace msg e s) = emissions s"
  "diagnostics (trace msg e s) = diagnostics s @ [Trace msg e]"
  by (simp_all add: trace_def)

lemma recordSuccess_ok:
  assumes "\<forall>p. recordErrorIf c = Some p \<longrightarrow> p v \<noteq> Says True"
  shows "emissions (recordSuccess c a v s) = emissions (onSuccess c a s)"
proof (cases "recordErrorIf c")
  case None
  then show ?thesis by (simp add: recordSuccess_def)
next
  case (Some p)
  with assms have "p v \<noteq> Says True" by simp
  with Some show ?thesis
    by (cases "p v") (simp_all add: recordSuccess_def trace_log)
qed

lemma recordError_default:
  assumes "recordSuccessIf c = Some q" and "q e = Raises y"
  shows "recordError c a e s = trace ''Error in recordSuccessIf function: '' y (onError c a s)"
  using assms by (simp add: recordError_def)

lemma recordSuccess_default:
  assumes "recordErrorIf c = Some p" and "p v = Raises x"
  shows "recordSuccess c a v s = trace ''Error in recordErrorIf function: '' x (onSuccess c a s)"
  using assms by (simp add: recordSuccess_def)

text \<open>
  Claim C1. The claim says that the caller label of an invocation names the instrumented
  function active at the time of the invocation. The code reads the caller once, when the
  function is wrapped, and every later emission carries that value. Here \<open>A\<close> and \<open>B\<close> are
  wrapped outside any instrumented call and the body of \<open>A\<close> calls \<open>B\<close>: the counter and the
  histogram emitted for \<open>B\<close> carry the "no caller" sentinel, not \<open>A\<close>. The second equation
  invokes \<open>B\<close> directly in a runtime whose caller context names \<open>A\<close>, with the same labels.
\<close>

theorem nested_call_keeps_wrap_time_caller:
  "emissions (snd (wrapper (fst example_A) None [] (snd example_A))) =
     [CounterAdd 0
        [(''function'', Some ''B''), (''module'', Some ''app''), (''result'', Some ''ok''),
         (''caller'', None), (''objective_name'', Some []), (''objective_percentile'', Some [])],
      CounterAdd 0
        [(''function'', Some ''A''), (''module'', Some ''app''), (''result'', Some ''ok''),
         (''caller'', None), (''objective_name'', Some []), (''objective_percentile'', Some [])],
      CounterAdd 1
        [(''function'', Some ''B''), (''module'', Some ''app''), (''result'', Some ''ok''),
         (''caller'', None), (''objective_name'', Some []), (''objective_percentile'', Some [])],
      HistogramRecord (1 / 1000)
        [(''function'', Some ''B''), (''module'', Some ''app''), (''caller'', None),
         (''objective_name'', Some []), (''objective_latency_threshold'', Some []),
         (''objective_percentile'', Some [])],
      MetricsRecorded,
      CounterAdd 1
        [(''function'', Some ''A''), (''module'', Some ''app''), (''result'', Some ''ok''),
         (''caller'', None), (''objective_name'', Some []), (''objective_percentile'', Some [])],
      HistogramRecord (3 / 1000)
        [(''function'', Some ''A''), (''module'', Some ''app''), (''caller'', None),
         (''objective_name'', Some []), (''objective_latency_threshold'', Some []),
         (''objective_percentile'', Some [])],
      MetricsRecorded]
   \<and> getALSCaller (asyncLocalStorage
        ((top_level :: nat runtime)\<lparr>asyncLocalStorage := ALS (Some ''A'')\<rparr>)) = Some ''A''
   \<and> emissions (snd (wrapper (fst example_B) None []
        (top_level\<lparr>asyncLocalStorage := ALS (Some ''A'')\<rparr>))) =
     [CounterAdd 1
        [(''function'', Some ''B''), (''module'', Some ''app''), (''result'', Some ''ok''),
         (''caller'', None), (''objective_name'', Some []), (''objective_percentile'', Some [])],
      HistogramRecord (1 / 1000)
        [(''function'', Some ''B''), (''module'', Some ''app''), (''caller'', None),
         (''objective_name'', Some []), (''objective_latency_threshold'', Some []),
         (''objective_percentile'', Some [])],
      MetricsRecorded]"
  by (simp add: scenario_defs engine_defs Let_def)

text \<open>
  Claim C3. The claim says that the wrapper ends exactly as the underlying function does,
  for every input. The receiver is an input, and the wrapper does not hand it on:
  \<open>instrumentedFn\<close> applies the function to its own \<open>this\<close> and is itself called without
  a receiver. The method \<open>getUsers\<close>, called on the object 7, is fulfilled with what it
  reads from that object; wrapped by \<open>autometrics\<close> and called on the same object, it is
  rejected with a \<open>TypeError\<close>, and the call is counted as an error.
\<close>

theorem wrapper_drops_receiver:
  "fst (apply_fn getUsers (Some 7) [] top_level) = Fulfils 7
   \<and> fst (wrapper (fst (autometrics None getUsers top_level)) (Some 7) []
        (snd (autometrics None getUsers top_level))) = Rejects ''TypeError''
   \<and> emissions (snd (wrapper (fst (autometrics None getUsers top_level)) (Some 7) []
        (snd (autometrics None getUsers top_level)))) =
     [CounterAdd 0
        [(''function'', Some ''getUsers''), (''module'', Some ''app''),
         (''result'', Some ''ok''), (''caller'', None), (''objective_name'', Some []),
         (''objective_percentile'', Some [])],
      CounterAdd 1
        [(''function'', Some ''getUsers''), (''module'', Some ''app''),
         (''result'', Some ''error''), (''caller'', None), (''objective_name'', Some []),
         (''objective_percentile'', Some [])],
      HistogramRecord 0
        [(''function'', Some ''getUsers''), (''module'', Some ''app''), (''caller'', None),
         (''objective_name'', Some []), (''objective_latency_threshold'', Some []),
         (''objective_percentile'', Some [])],
      MetricsRecorded]"
  by (simp add: scenario_defs engine_defs Let_def)




text \<open>
  Claim C7. For a wrapper made by \<open>autometrics\<close>: when \<open>recordErrorIf\<close> throws on the
  value a call returned or was fulfilled with, the call is recorded as a success (one
  counter increment whose result label is "ok", one histogram record), one diagnostic
  carrying the predicate's error is traced, and the wrapper ends as the application did.
  When \<open>recordSuccessIf\<close> throws on the error a call threw or was rejected with, the call
  is recorded as an error (one counter increment whose result label is "error", one
  histogram record), one diagnostic is traced, and the wrapper ends with the application's
  own error, not the predicate's.
\<close>

theorem predicate_failure_absorbed:
  assumes "autometrics fnOrOptions f s0 = (Instrumented c g, t0)"
  shows "(recordErrorIf c = Some p \<and> p v = Raises x \<and>
      (ending (fn_body f None params) = Returns v \<or>
       ending (fn_body f None params) = Fulfils v) \<longrightarrow>
      fst (wrapper (Instrumented c g) this params s) = ending (fn_body f None params) \<and>
      emissions (snd (wrapper (Instrumented c g) this params s)) =
        emissions (body_end c g params s) @
        [CounterAdd 1 (counter_attributes c ''ok''),
         HistogramRecord ((now (body_end c g params s) - now s) / 1000)
           (histogram_attributes c)] @
        (if trackConcurrency c then [GaugeAdd (- 1) (gauge_attributes c)] else []) @
        [MetricsRecorded] \<and>
      diagnostics (snd (wrapper (Instrumented c g) this params s)) =
        diagnostics (body_end c g params s) @ [Trace ''Error in recordErrorIf function: '' x])
   \<and> (recordSuccessIf c = Some q \<and> q e = Raises y \<and>
      (ending (fn_body f None params) = Throws e \<or>
       ending (fn_body f None params) = Rejects e) \<longrightarrow>
      fst (wrapper (Instrumented c g) this params s) = ending (fn_body f None params) \<and>
      emissions (snd (wrapper (Instrumented c g) this params s)) =
        emissions (body_end c g params s) @
        [CounterAdd 1 (counter_attributes c ''error''),
         HistogramRecord ((now (body_end c g params s) - now s) / 1000)
           (histogram_attributes c)] @
        (if trackConcurrency c then
           [GaugeAdd (- 1) [(''function'', Some (functionName c)), (''module'', moduleName c),
                            (''caller'', caller c)]]
         else []) @
        [MetricsRecorded] \<and>
      diagnostics (snd (wrapper (Instrumented c g) this params s)) =
        diagnostics (body_end c g params s) @ [Trace ''Error in recordSuccessIf function: '' y])
   \<and> map_of (counter_attributes c ''ok'') ''result'' = Some (Some ''ok'')
   \<and> map_of (counter_attributes c ''error'') ''result'' = Some (Some ''error'')
   \<and> map_of (counter_attributes c ''ok'') ''function'' = Some (Some (functionName c))
   \<and> map_of (counter_attributes c ''error'') ''function'' = Some (Some (functionName c))
   \<and> map_of (histogram_attributes c) ''function'' = Some (Some (functionName c))
   \<and> map fst (counter_attributes c ''ok'') =
       [''function'', ''module'', ''result'', ''caller'', ''objective_name'',
        ''objective_percentile'']
   \<and> map fst (counter_attributes c ''error'') =
       [''function'', ''module'', ''result'', ''caller'', ''objective_name'',
        ''objective_percentile'']"
proof -
  have g: "g = f" using assms by (rule autometrics_closure(1))
  note ok = counter_attributes_made [OF autometrics_closure(4) [OF assms], of "''ok''"]
  note er = counter_attributes_made [OF autometrics_closure(4) [OF assms], of "''error''"]
  note ha = histogram_attributes_made [OF autometrics_closure(5) [OF assms]]
  have labels: "map_of (counter_attributes c ''ok'') ''result'' = Some (Some ''ok'')
   \<and> map_of (counter_attributes c ''error'') ''result'' = Some (Some ''error'')
   \<and> map_of (counter_attributes c ''ok'') ''function'' = Some (Some (functionName c))
   \<and> map_of (counter_attributes c ''error'') ''function'' = Some (Some (functionName c))
   \<and> map_of (histogram_attributes c) ''function'' = Some (Some (functionName c))
   \<and> map fst (counter_attributes c ''ok'') =
       [''function'', ''module'', ''result'', ''caller'', ''objective_name'',
        ''objective_percentile'']
   \<and> map fst (counter_attributes c ''error'') =
       [''function'', ''module'', ''result'', ''caller'', ''objective_name'',
        ''objective_percentile'']"
    unfolding ok er ha by simp
  have first: "recordErrorIf c = Some p \<and> p v = Raises x \<and>
      (ending (fn_body f None params) = Returns v \<or>
       ending (fn_body f None params) = Fulfils v) \<longrightarrow>
      fst (wrapper (Instrumented c g) this params s) = ending (fn_body f None params) \<and>
      emissions (snd (wrapper (Instrumented c g) this params s)) =
        emissions (body_end c g params s) @
        [CounterAdd 1 (counter_attributes c ''ok''),
         HistogramRecord ((now (body_end c g params s) - now s) / 1000)
           (histogram_attributes c)] @
        (if trackConcurrency c then [GaugeAdd (- 1) (gauge_attributes c)] else []) @
        [MetricsRecorded] \<and>
      diagnostics (snd (wrapper (Instrumented c g) this params s)) =
        diagnostics (body_end c g params s) @ [Trace ''Error in recordErrorIf function: '' x]"
  proof (intro impI conjI)
    assume h: "recordErrorIf c = Some p \<and> p v = Raises x \<and>
      (ending (fn_body f None params) = Returns v \<or>
       ending (fn_body f None params) = Fulfils v)"
    then have r: "recordSuccess c (now s) v (body_end c f params s) =
        trace ''Error in recordErrorIf function: '' x
          (onSuccess c (now s) (body_end c f params s))"
      by (simp add: recordSuccess_default)
    show "fst (wrapper (Instrumented c g) this params s) = ending (fn_body f None params)"
      unfolding g by (rule wrapper_passes_outcome_on)
    show "emissions (snd (wrapper (Instrumented c g) this params s)) =
        emissions (body_end c g params s) @
        [CounterAdd 1 (counter_attributes c ''ok''),
         HistogramRecord ((now (body_end c g params s) - now s) / 1000)
           (histogram_attributes c)] @
        (if trackConcurrency c then [GaugeAdd (- 1) (gauge_attributes c)] else []) @
        [MetricsRecorded]"
      using h r
      by (auto simp: g wrapper_Instrumented(2) apply_fn_body_end settle_call_def trace_log
          onSuccess_log simp del: wrapper.simps)
    show "diagnostics (snd (wrapper (Instrumented c g) this params s)) =
        diagnostics (body_end c g params s) @ [Trace ''Error in recordErrorIf function: '' x]"
      using h r
      by (auto simp: g wrapper_Instrumented(3) apply_fn_body_end settle_call_def trace_log
          onSuccess_log simp del: wrapper.simps)
  qed
  have second: "recordSuccessIf c = Some q \<and> q e = Raises y \<and>
      (ending (fn_body f None params) = Throws e \<or>
       ending (fn_body f None params) = Rejects e) \<longrightarrow>
      fst (wrapper (Instrumented c g) this params s) = ending (fn_body f None params) \<and>
      emissions (snd (wrapper (Instrumented c g) this params s)) =
        emissions (body_end c g params s) @
        [CounterAdd 1 (counter_attributes c ''error''),
         HistogramRecord ((now (body_end c g params s) - now s) / 1000)
           (histogram_attributes c)] @
        (if trackConcurrency c then
           [GaugeAdd (- 1) [(''function'', Some (functionName c)), (''module'', moduleName c),
                            (''caller'', caller c)]]
         else []) @
        [MetricsRecorded] \<and>
      diagnostics (snd (wrapper (Instrumented c g) this params s)) =
        diagnostics (body_end c g params s) @ [Trace ''Error in recordSuccessIf function: '' y]"
  proof (intro impI conjI)
    assume h: "recordSuccessIf c = Some q \<and> q e = Raises y \<and>
      (ending (fn_body f None params) = Throws e \<or>
       ending (fn_body f None params) = Rejects e)"
    then have r: "recordError c (now s) e (body_end c f params s) =
        trace ''Error in recordSuccessIf function: '' y
          (onError c (now s) (body_end c f params s))"
      by (simp add: recordError_default)
    show "fst (wrapper (Instrumented c g) this params s) = ending (fn_body f None params)"
      unfolding g by (rule wrapper_passes_outcome_on)
    show "emissions (snd (wrapper (Instrumented c g) this params s)) =
        emissions (body_end c g params s) @
        [CounterAdd 1 (counter_attributes c ''error''),
         HistogramRecord ((now (body_end c g params s) - now s) / 1000)
           (histogram_attributes c)] @
        (if trackConcurrency c then
           [GaugeAdd (- 1) [(''function'', Some (functionName c)), (''module'', moduleName c),
                            (''caller'', caller c)]]
         else []) @
        [MetricsRecorded]"
      using h r
      by (auto simp: g wrapper_Instrumented(2) apply_fn_body_end settle_call_def trace_log
          onError_log simp del: wrapper.simps)
    show "diagnostics (snd (wrapper (Instrumented c g) this params s)) =
        diagnostics (body_end c g params s) @ [Trace ''Error in recordSuccessIf function: '' y]"
      using h r
      by (auto simp: g wrapper_Instrumented(3) apply_fn_body_end settle_call_def trace_log
          onError_log simp del: wrapper.simps)
  qed
  from first second labels show ?thesis by blast
qed

theorem predicate_failure_absorbed_witness:
  "autometrics (Some faulty_options) (plain ''B'' 4 (Fulfils 200)) top_level =
     (Instrumented faulty_closure (plain ''B'' 4 (Fulfils 200)),
      emit (CounterAdd 0 (counter_attributes faulty_closure ''ok'')) top_level)
   \<and> autometrics (Some faulty_options) (plain ''B'' 4 (Throws 9)) top_level =
     (Instrumented faulty_closure (plain ''B'' 4 (Throws 9)),
      emit (CounterAdd 0 (counter_attributes faulty_closure ''ok'')) top_level)
   \<and> recordErrorIf faulty_closure = Some (\<lambda>v. Raises 1)
   \<and> recordSuccessIf faulty_closure = Some (\<lambda>e. Raises 2)
   \<and> wrapper (Instrumented faulty_closure (plain ''B'' 4 (Fulfils 200))) None [] top_level =
       (Fulfils 200,
        top_level\<lparr> now := 4,
          emissions :=
            [CounterAdd 1
               [(''function'', Some ''B''), (''module'', Some ''app''),
                (''result'', Some ''ok''), (''caller'', None), (''objective_name'', Some []),
                (''objective_percentile'', Some [])],
             HistogramRecord (4 / 1000)
               [(''function'', Some ''B''), (''module'', Some ''app''), (''caller'', None),
                (''objective_name'', Some []), (''objective_latency_threshold'', Some []),
                (''objective_percentile'', Some [])],
             MetricsRecorded],
          diagnostics := [Trace ''Error in recordErrorIf function: '' 1] \<rparr>)
   \<and> wrapper (Instrumented faulty_closure (plain ''B'' 4 (Throws 9))) None [] top_level =
       (Throws 9,
        top_level\<lparr> now := 4,
          emissions :=
            [CounterAdd 1
               [(''function'', Some ''B''), (''module'', Some ''app''),
                (''result'', Some ''error''), (''caller'', None), (''objective_name'', Some []),
                (''objective_percentile'', Some [])],
             HistogramRecord (4 / 1000)
               [(''function'', Some ''B''), (''module'', Some ''app''), (''caller'', None),
                (''objective_name'', Some []), (''objective_latency_threshold'', Some []),
                (''objective_percentile'', Some [])],
             MetricsRecorded],
          diagnostics := [Trace ''Error in recordSuccessIf function: '' 2] \<rparr>)"
proof -
  have a: "autometrics (Some faulty_options) (plain ''B'' 4 (Fulfils 200)) top_level =
     (Instrumented faulty_closure (plain ''B'' 4 (Fulfils 200)),
      emit (CounterAdd 0 (counter_attributes faulty_closure ''ok'')) top_level)"
    by (simp add: faulty_options_def faulty_closure_def plain_closure_def top_level_def
        plain_def engine_defs Let_def)
  have b: "autometrics (Some faulty_options) (plain ''B'' 4 (Throws 9)) top_level =
     (Instrumented faulty_closure (plain ''B'' 4 (Throws 9)),
      emit (CounterAdd 0 (counter_attributes faulty_closure ''ok'')) top_level)"
    by (simp add: faulty_options_def faulty_closure_def plain_closure_def top_level_def
        plain_def engine_defs Let_def)
  from predicate_failure_absorbed [OF a, of "\<lambda>v. Raises 1" 200 1 "[]" None top_level
         "\<lambda>e. Raises 2" 9 2]
       predicate_failure_absorbed [OF b, of "\<lambda>v. Raises 1" 200 1 "[]" None top_level
         "\<lambda>e. Raises 2" 9 2] a b
  show ?thesis
    by (simp add: faulty_closure_def plain_closure_def top_level_def plain_def engine_defs
        Let_def)
qed

text \<open>
  Claim C8. A call that returns or is fulfilled, and that \<open>recordErrorIf\<close> does not
  declare an error, adds to what was emitted while the function ran exactly: one counter
  increment with result "ok", one histogram record, the gauge decrement if concurrency is
  tracked, and the notification that metrics were recorded. The counter and the histogram
  carry the same function, module and caller labels.
\<close>

theorem success_recorded_once:
  assumes "autometrics fnOrOptions f s0 = (Instrumented c g, t0)"
      and "ending (fn_body f None params) = Returns v \<or>
           ending (fn_body f None params) = Fulfils v"
      and "\<forall>p. recordErrorIf c = Some p \<longrightarrow> p v \<noteq> Says True"
  shows "emissions (snd (wrapper (Instrumented c g) this params s)) =
           emissions (body_end c g params s) @
           [CounterAdd 1 (counter_attributes c ''ok''),
            HistogramRecord ((now (body_end c g params s) - now s) / 1000)
              (histogram_attributes c)] @
           (if trackConcurrency c then [GaugeAdd (- 1) (gauge_attributes c)] else []) @
           [MetricsRecorded]
       \<and> map_of (counter_attributes c ''ok'') ''result'' = Some (Some ''ok'')
       \<and> map_of (counter_attributes c ''ok'') ''function'' = Some (Some (functionName c))
       \<and> map_of (histogram_attributes c) ''function'' = Some (Some (functionName c))
       \<and> map_of (counter_attributes c ''ok'') ''module'' = Some (moduleName c)
       \<and> map_of (histogram_attributes c) ''module'' = Some (moduleName c)
       \<and> map_of (counter_attributes c ''ok'') ''caller'' = Some (caller c)
       \<and> map_of (histogram_attributes c) ''caller'' = Some (caller c)"
proof -
  have g: "g = f" using assms(1) by (rule autometrics_closure(1))
  have log: "emissions (snd (wrapper (Instrumented c g) this params s)) =
      emissions (onSuccess c (now s) (body_end c g params s))"
    using assms(2) recordSuccess_ok [OF assms(3)]
    by (auto simp: wrapper_Instrumented(2) apply_fn_body_end g settle_call_def
        simp del: wrapper.simps)
  note ca = counter_attributes_made [OF autometrics_closure(4) [OF assms(1)], of "''ok''"]
  note ha = histogram_attributes_made [OF autometrics_closure(5) [OF assms(1)]]
  have labels: "map_of (counter_attributes c ''ok'') ''result'' = Some (Some ''ok'')
       \<and> map_of (counter_attributes c ''ok'') ''function'' = Some (Some (functionName c))
       \<and> map_of (histogram_attributes c) ''function'' = Some (Some (functionName c))
       \<and> map_of (counter_attributes c ''ok'') ''module'' = Some (moduleName c)
       \<and> map_of (histogram_attributes c) ''module'' = Some (moduleName c)
       \<and> map_of (counter_attributes c ''ok'') ''caller'' = Some (caller c)
       \<and> map_of (histogram_attributes c) ''caller'' = Some (caller c)"
    unfolding ca ha by simp
  from log labels show ?thesis by (simp add: onSuccess_log(1))
qed

theorem success_recorded_once_witness:
  "autometrics (Some api_options) (plain ''getUsers'' 1 (Fulfils 200)) top_level =
     (Instrumented api_closure (plain ''getUsers'' 1 (Fulfils 200)),
      emit (CounterAdd 0 (counter_attributes api_closure ''ok'')) top_level)
   \<and> recordErrorIf api_closure = Some (\<lambda>status. Says (400 \<le> status))
   \<and> emissions (snd (wrapper (Instrumented api_closure (plain ''getUsers'' 1 (Fulfils 200)))
        None [] top_level)) =
       [GaugeAdd 1 [(''function'', Some ''getUsers''), (''module'', Some ''app'')],
        CounterAdd 1
          [(''function'', Some ''getUsers''), (''module'', Some ''app''),
           (''result'', Some ''ok''), (''caller'', None), (''objective_name'', Some ''api''),
           (''objective_percentile'', Some ''99'')],
        HistogramRecord (1 / 1000)
          [(''function'', Some ''getUsers''), (''module'', Some ''app''), (''caller'', None),
           (''objective_name'', Some ''api''), (''objective_latency_threshold'', Some ''0.25''),
           (''objective_percentile'', Some ''99'')],
        GaugeAdd (- 1) [(''function'', Some ''getUsers''), (''module'', Some ''app'')],
        MetricsRecorded]"
proof -
  have a: "autometrics (Some api_options) (plain ''getUsers'' 1 (Fulfils 200)) top_level =
     (Instrumented api_closure (plain ''getUsers'' 1 (Fulfils 200)),
      emit (CounterAdd 0 (counter_attributes api_closure ''ok'')) top_level)"
    by (simp add: api_options_def api_closure_def top_level_def plain_def engine_defs Let_def)
  have b: "ending (fn_body (plain ''getUsers'' 1 (Fulfils 200)) None []) = Returns 200 \<or>
           ending (fn_body (plain ''getUsers'' 1 (Fulfils 200)) None []) = Fulfils (200::nat)"
    by (simp add: plain_def)
  have c: "\<forall>p. recordErrorIf api_closure = Some p \<longrightarrow> p 200 \<noteq> Says True"
    by (simp add: api_closure_def)
  from success_recorded_once [OF a b c, of None top_level] a
  show ?thesis by (simp add: api_closure_def top_level_def plain_def engine_defs Let_def)
qed

text \<open>
  Claim C9. The claim says that the concurrency gauge is back where it was once a call has
  settled, whatever its outcome. With concurrency tracked, a call that throws (or is
  rejected) increments the gauge under the labels function and module, and the error path
  decrements it under the labels function, module and caller, which is another series:
  the series incremented at entry stays one up. The success path decrements under the
  labels of the increment, and that series is back at zero.
\<close>

theorem gauge_not_restored_after_error:
  "fst (wrapper (fst (tracked (Throws 7))) None [] (snd (tracked (Throws 7)))) = Throws 7
   \<and> emissions (snd (wrapper (fst (tracked (Throws 7))) None [] (snd (tracked (Throws 7))))) =
     [CounterAdd 0
        [(''function'', Some ''f''), (''module'', Some ''app''), (''result'', Some ''ok''),
         (''caller'', None), (''objective_name'', Some []), (''objective_percentile'', Some [])],
      GaugeAdd 1 [(''function'', Some ''f''), (''module'', Some ''app'')],
      CounterAdd 1
        [(''function'', Some ''f''), (''module'', Some ''app''), (''result'', Some ''error''),
         (''caller'', None), (''objective_name'', Some []), (''objective_percentile'', Some [])],
      HistogramRecord (5 / 1000)
        [(''function'', Some ''f''), (''module'', Some ''app''), (''caller'', None),
         (''objective_name'', Some []), (''objective_latency_threshold'', Some []),
         (''objective_percentile'', Some [])],
      GaugeAdd (- 1) [(''function'', Some ''f''), (''module'', Some ''app''), (''caller'', None)],
      MetricsRecorded]
   \<and> gauge_value
        (emissions (snd (wrapper (fst (tracked (Throws 7))) None [] (snd (tracked (Throws 7))))))
        [(''function'', Some ''f''), (''module'', Some ''app'')] = 1
   \<and> gauge_value
        (emissions (snd (wrapper (fst (tracked (Rejects 7))) None [] (snd (tracked (Rejects 7))))))
        [(''function'', Some ''f''), (''module'', Some ''app'')] = 1
   \<and> gauge_value
        (emissions (snd (wrapper (fst (tracked (Returns 7))) None [] (snd (tracked (Returns 7))))))
        [(''function'', Some ''f''), (''module'', Some ''app'')] = 0"
  by (simp add: scenario_defs engine_defs Let_def gauge_value_def same_attributes_def)


end
